theory Spec2Isabelle
  imports Complex_Main "HOL-Library.Word"
begin

section \<open>Python values shared by both modules\<close>

text \<open>
  A Python \<^verbatim>\<open>str\<close> is a sequence of Unicode code points, so a string is a list of
  code points here. \<open>ascii\<close> writes a literal of the source.
\<close>

type_synonym pystr = "nat list"

definition ascii :: "string \<Rightarrow> pystr" where
  "ascii s = map of_char s"

text \<open>Exceptions are values. \<open>ReError\<close> is \<^verbatim>\<open>re.error\<close>.\<close>

datatype error =
    ValueError
  | KeyError
  | IndexError
  | AttributeError
  | TypeError
  | FileNotFoundError
  | KeyboardInterrupt
  | RecursionError
  | ReError
  | OverflowError

text \<open>
  A cell of an integer column of a frame is a 64-bit integer (dtype int64), read as a signed
  number with \<open>sint\<close>; sums of such cells wrap as those of numpy do.
\<close>

type_synonym int64 = "64 word"

section \<open>coronatracker.py: tables and selection\<close>

text \<open>
  The frame returned by \<^verbatim>\<open>get_jhu_data\<close> has the columns state, city, cases, deaths and
  recoveries; the frame returned by \<^verbatim>\<open>make_state_frame\<close> has state, cases, deaths and
  recoveries. The rows are polymorphic in the type of the three counts: \<open>int64\<close> in the
  frames the functions compute with, \<open>int\<close> for the Python integers that
  \<^verbatim>\<open>get_jhu_data\<close> parses from the sheet.

  A frame is the list of its rows in index order, its state and city columns being
  columns of text (dtype object); a selection that keeps no row gives \<open>Rows []\<close>. The frame
  that \<^verbatim>\<open>pd.DataFrame\<close> builds from empty lists is another one, \<open>Unfilled\<close>: it has no
  rows and, in the pandas of the source's time, every column of it has dtype float64, so
  that the \<^verbatim>\<open>.str\<close> accessor refuses its columns.
\<close>

record 'n state_row =
  state :: pystr
  cases :: 'n
  deaths :: 'n
  recoveries :: 'n

record 'n row = "'n state_row" +
  city :: pystr

datatype 'r frame = Rows "'r list" | Unfilled

type_synonym table = "int64 row frame"

definition frame_rows :: "'r frame \<Rightarrow> 'r list" where
  "frame_rows data = (case data of Rows rs \<Rightarrow> rs | Unfilled \<Rightarrow> [])"

text \<open>\<^verbatim>\<open>pd.DataFrame(lists)\<close>.\<close>

definition data_frame :: "'r list \<Rightarrow> 'r frame" where
  "data_frame rs = (if rs = [] then Unfilled else Rows rs)"

datatype level = Info | Warning | Critical

text \<open>
  What a call does besides returning, in the order it does it: lines written to the log
  file and to the console, the charts drawn, the pause of the polling loop. A
  \<open>drawing\<close> stands for one block of numpy and matplotlib calls of dataproccessor.py:
  the figure set-up (lines 27 to 32), the bar chart of the state frame (lines 41 to 58),
  the linear panel of the time series (lines 74 to 82) and its logarithmic panel with the
  saved image (lines 86 to 92). \<open>FetchPlot\<close> is one pass of lines 255 to 287 of
  coronatracker.py: both downloads and both charts.
\<close>

datatype drawing =
    FigureSetup
  | StateChart "int64 state_row list"
  | RegularPanel "int list"
  | LogPanel "real list"

datatype effect =
    Log level pystr
  | Print pystr
  | Draw drawing
  | FetchPlot
  | Sleep nat

text \<open>
  \<^verbatim>\<open>var\<close>: the docstring of \<^verbatim>\<open>get_data_for\<close> admits exactly cases, deaths and
  recoveries.
\<close>

datatype variable = Cases | Deaths | Recoveries

fun cell_of :: "variable \<Rightarrow> 'n row \<Rightarrow> 'n" where
  "cell_of Cases r = cases r"
| "cell_of Deaths r = deaths r"
| "cell_of Recoveries r = recoveries r"

text \<open>
  \<^verbatim>\<open>Series.str.contains(name)\<close> with its default \<^verbatim>\<open>regex=True\<close> compiles the name
  with \<^verbatim>\<open>re.compile\<close>, once, and asks \<^verbatim>\<open>search\<close> of every element. A pattern without
  any of the special characters \<^verbatim>\<open>^ $ * + ? { } [ ] \ | ( )\<close> is interpreted here: its
  characters match themselves, but for the dot, which matches any character except a
  newline. For every other pattern the answer of the \<^verbatim>\<open>re\<close> module is a parameter:
  the exception that \<^verbatim>\<open>re.compile\<close> raises (\<^verbatim>\<open>re.error\<close> for a pattern that is
  not well formed, \<^verbatim>\<open>OverflowError\<close> for a repetition count too large), or the test
  that \<^verbatim>\<open>search\<close> makes with the compiled pattern.
\<close>

type_synonym regex_engine = "pystr \<Rightarrow> error + (pystr \<Rightarrow> bool)"

definition regex_operators :: pystr where
  "regex_operators = ascii ''^$*+?{}[]|()'' @ [92]"

definition simple_pattern :: "pystr \<Rightarrow> bool" where
  "simple_pattern pat = (\<not> list_ex (\<lambda>p. p \<in> set regex_operators) pat)"

fun match_here :: "pystr \<Rightarrow> pystr \<Rightarrow> bool" where
  "match_here [] s = True"
| "match_here (p # ps) [] = False"
| "match_here (p # ps) (c # cs) =
     ((if p = 46 then c \<noteq> 10 else p = c) \<and> match_here ps cs)"

fun re_search :: "pystr \<Rightarrow> pystr \<Rightarrow> bool" where
  "re_search pat [] = match_here pat []"
| "re_search pat (c # cs) = (match_here pat (c # cs) \<or> re_search pat cs)"

definition re_compile :: "regex_engine \<Rightarrow> pystr \<Rightarrow> error + (pystr \<Rightarrow> bool)" where
  "re_compile engine pat = (if simple_pattern pat then Inr (re_search pat) else engine pat)"

definition contains_mask :: "regex_engine \<Rightarrow> pystr \<Rightarrow> pystr list \<Rightarrow> error + bool list" where
  "contains_mask engine pat col =
     (case re_compile engine pat of
        Inl e \<Rightarrow> Inl e
      | Inr found \<Rightarrow> Inr (map found col))"

text \<open>\<^verbatim>\<open>data[mask]\<close> on the rows: those whose mask entry is true.\<close>

definition select :: "bool list \<Rightarrow> 'a list \<Rightarrow> 'a list" where
  "select keep data = map snd (filter fst (zip keep data))"

text \<open>
  \<^verbatim>\<open>get_data_for(name, var, data, region='state')\<close>. The result is the log lines the call
  wrote and either the selected column or the exception raised. \<^verbatim>\<open>data.state.str\<close> is
  evaluated before the name is compiled.
\<close>

definition get_data_for ::
  "regex_engine \<Rightarrow> pystr \<Rightarrow> variable \<Rightarrow> table \<Rightarrow> pystr \<Rightarrow>
     effect list \<times> (error + int64 list)" where
  "get_data_for engine name var data region =
     (if region = ascii ''state'' then
        (case data of
           Unfilled \<Rightarrow> ([], Inl AttributeError)
         | Rows rs \<Rightarrow>
             (case contains_mask engine name (map state rs) of
                Inl e \<Rightarrow> ([], Inl e)
              | Inr keep \<Rightarrow> ([], Inr (map (cell_of var) (select keep rs)))))
      else if region = ascii ''city'' then
        (case data of
           Unfilled \<Rightarrow> ([], Inl AttributeError)
         | Rows rs \<Rightarrow>
             (case contains_mask engine name (map city rs) of
                Inl e \<Rightarrow> ([], Inl e)
              | Inr keep \<Rightarrow> ([], Inr (map (cell_of var) (select keep rs)))))
      else
        ([Log Warning (ascii ''Received invalid region '' @ region)], Inl ValueError))"

text \<open>
  \<^verbatim>\<open>make_state_frame\<close>: the loop over \<^verbatim>\<open>data['state']\<close> with its four result lists
  (states, cases, deaths, recoveries). The three selections are made for every row, before
  the membership test. \<^verbatim>\<open>Series.sum\<close> of an int64 column is the sum of 64-bit words.
\<close>

type_synonym state_lists = "pystr list \<times> int64 list \<times> int64 list \<times> int64 list"

fun state_loop ::
  "regex_engine \<Rightarrow> table \<Rightarrow> pystr list \<Rightarrow> state_lists \<Rightarrow> error + state_lists" where
  "state_loop engine data [] acc = Inr acc"
| "state_loop engine data (s # rest) (states, state_cases, state_deaths, state_recoveries) =
     (case snd (get_data_for engine s Deaths data (ascii ''state'')) of
        Inl e \<Rightarrow> Inl e
      | Inr ds \<Rightarrow>
     (case snd (get_data_for engine s Cases data (ascii ''state'')) of
        Inl e \<Rightarrow> Inl e
      | Inr cs \<Rightarrow>
     (case snd (get_data_for engine s Recoveries data (ascii ''state'')) of
        Inl e \<Rightarrow> Inl e
      | Inr rs \<Rightarrow>
        (if s \<notin> set states then
           state_loop engine data rest
             (states @ [s], state_cases @ [sum_list cs], state_deaths @ [sum_list ds],
              state_recoveries @ [sum_list rs])
         else
           state_loop engine data rest
             (states, state_cases, state_deaths, state_recoveries)))))"

text \<open>\<^verbatim>\<open>pd.DataFrame(ret_data)\<close>: the rows of the frame whose columns are the four lists.\<close>

fun state_frame_of :: "state_lists \<Rightarrow> int64 state_row list" where
  "state_frame_of (states, state_cases, state_deaths, state_recoveries) =
     map (\<lambda>(s, c, d, r). \<lparr>state = s, cases = c, deaths = d, recoveries = r\<rparr>)
       (zip states (zip state_cases (zip state_deaths state_recoveries)))"

definition make_state_frame :: "regex_engine \<Rightarrow> table \<Rightarrow> error + int64 state_row list" where
  "make_state_frame engine data =
     (case state_loop engine data (map state (frame_rows data)) ([], [], [], []) of
        Inl e \<Rightarrow> Inl e
      | Inr acc \<Rightarrow> Inr (state_frame_of acc))"

section \<open>coronatracker.py: reading the sheet\<close>

text \<open>
  \<^verbatim>\<open>int(s)\<close> of a string, as CPython computes it. The tables of the interpreter are
  parameters: which characters beyond ASCII are white space, which are decimal digits and
  of what value, and the bound on the number of digits (0: none, as in the interpreters
  before 3.11). A string with a character beyond ASCII is first rewritten: characters
  below 127 stay, white space becomes a blank, a decimal digit its ASCII digit, and
  anything else a question mark, which no number contains. Then the ASCII white space
  around the number is dropped (tab, line feed, vertical tab, form feed, carriage return,
  blank), one sign may lead, and the decimal digits may be grouped by single underscores.
\<close>

record interpreter =
  unicode_space :: "nat \<Rightarrow> bool"
  unicode_decimal :: "nat \<Rightarrow> nat option"
  max_str_digits :: nat

definition to_ascii :: "interpreter \<Rightarrow> nat \<Rightarrow> nat" where
  "to_ascii itp c =
     (if c < 127 then c
      else if unicode_space itp c then 32
      else (case unicode_decimal itp c of
              None \<Rightarrow> 63
            | Some d \<Rightarrow> if d < 10 then 48 + d else 63))"

definition transform_decimal_and_space :: "interpreter \<Rightarrow> pystr \<Rightarrow> pystr" where
  "transform_decimal_and_space itp s =
     (if list_all (\<lambda>c. c < 128) s then s else map (to_ascii itp) s)"

definition is_space :: "nat \<Rightarrow> bool" where
  "is_space c = (c \<in> set [9, 10, 11, 12, 13, 32])"

definition is_digit :: "nat \<Rightarrow> bool" where
  "is_digit c = (48 \<le> c \<and> c \<le> 57)"

definition py_strip :: "pystr \<Rightarrow> pystr" where
  "py_strip s = rev (dropWhile is_space (rev (dropWhile is_space s)))"

fun parse_digits :: "nat \<Rightarrow> pystr \<Rightarrow> nat option" where
  "parse_digits acc [] = Some acc"
| "parse_digits acc [c] = (if is_digit c then Some (10 * acc + (c - 48)) else None)"
| "parse_digits acc (c # d # ds) =
     (if is_digit c then parse_digits (10 * acc + (c - 48)) (d # ds)
      else if c = 95 \<and> is_digit d then parse_digits (10 * acc + (d - 48)) ds
      else None)"

definition parse_unsigned :: "pystr \<Rightarrow> nat option" where
  "parse_unsigned s =
     (case s of
        [] \<Rightarrow> None
      | c # cs \<Rightarrow> if is_digit c then parse_digits (c - 48) cs else None)"

text \<open>
  The bound on the digits is looked at for numbers of more than 640 digits only, the
  least bound the interpreter lets one set.
\<close>

definition too_many_digits :: "interpreter \<Rightarrow> pystr \<Rightarrow> bool" where
  "too_many_digits itp body =
     (640 < length (filter is_digit body) \<and> 0 < max_str_digits itp \<and>
      max_str_digits itp < length (filter is_digit body))"

definition parse_number :: "interpreter \<Rightarrow> pystr \<Rightarrow> nat option" where
  "parse_number itp body =
     (case parse_unsigned body of
        None \<Rightarrow> None
      | Some n \<Rightarrow> if too_many_digits itp body then None else Some n)"

definition py_int :: "interpreter \<Rightarrow> pystr \<Rightarrow> error + int" where
  "py_int itp s =
     (case py_strip (transform_decimal_and_space itp s) of
        [] \<Rightarrow> Inl ValueError
      | c # cs \<Rightarrow>
          if c = 45 then
            (case parse_number itp cs of None \<Rightarrow> Inl ValueError | Some n \<Rightarrow> Inr (- int n))
          else if c = 43 then
            (case parse_number itp cs of None \<Rightarrow> Inl ValueError | Some n \<Rightarrow> Inr (int n))
          else
            (case parse_number itp (c # cs) of
               None \<Rightarrow> Inl ValueError
             | Some n \<Rightarrow> Inr (int n)))"

text \<open>\<^verbatim>\<open>s.split(',')\<close> and \<^verbatim>\<open>s.replace(c, '')\<close> for a single character.\<close>

fun split_on :: "nat \<Rightarrow> pystr \<Rightarrow> pystr list" where
  "split_on sep [] = [[]]"
| "split_on sep (c # cs) =
     (if c = sep then [] # split_on sep cs
      else (case split_on sep cs of
              [] \<Rightarrow> [[c]]
            | p # ps \<Rightarrow> (c # p) # ps))"

definition remove_char :: "nat \<Rightarrow> pystr \<Rightarrow> pystr" where
  "remove_char c s = filter (\<lambda>x. x \<noteq> c) s"

definition state_map :: "(pystr \<times> pystr) list" where
  "state_map = map (\<lambda>(k, v). (ascii k, ascii v))
     [(''AL'', ''Alabama''), (''AK'', ''Alaska''), (''AZ'', ''Arizona''),
      (''CA'', ''California''), (''CO'', ''Colorado''), (''CT'', ''Connecticut''),
      (''DE'', ''Delaware''), (''FL'', ''Florida''), (''GA'', ''Georgia''),
      (''HI'', ''Hawaii''), (''ID'', ''Idaho''), (''IL'', ''Illinois''),
      (''IN'', ''Indiana''), (''IA'', ''Iowa''), (''KS'', ''Kansas''),
      (''KY'', ''Kentucky''), (''LA'', ''Louisiana''), (''ME'', ''Maine''),
      (''MD'', ''Maryland''), (''MA'', ''Massachusetts''), (''MI'', ''Michigan''),
      (''MN'', ''Minnesota''), (''MS'', ''Mississippi''), (''MO'', ''Missouri''),
      (''MT'', ''Montana''), (''NE'', ''Nebraska''), (''NV'', ''Nevada''),
      (''NH'', ''New Hampshire''), (''NJ'', ''New Jersey''), (''NM'', ''New Mexico''),
      (''NY'', ''New York''), (''NC'', ''North Carolina''), (''ND'', ''North Dakota''),
      (''OH'', ''Ohio''), (''OK'', ''Oklahoma''), (''OR'', ''Oregon''),
      (''PA'', ''Pennsylvania''), (''RI'', ''Rhode Island''), (''SC'', ''South Carolina''),
      (''SD'', ''South Dakota''), (''TN'', ''Tennessee''), (''TX'', ''Texas''),
      (''UT'', ''Utah''), (''VT'', ''Vermont''), (''VA'', ''Virginia''),
      (''WA'', ''Washington''), (''WV'', ''West Virginia''), (''WI'', ''Wisconsin''),
      (''WY'', ''Wyoming'')]"

text \<open>
  Lines 79 to 84: both conversions stand in one \<^verbatim>\<open>try\<close> block, and the handler of
  \<^verbatim>\<open>ValueError\<close> sets both variables.
\<close>

definition parse_counts :: "interpreter \<Rightarrow> pystr \<Rightarrow> pystr \<Rightarrow> error + int \<times> int" where
  "parse_counts itp deaths_cell recoveries_cell =
     (case py_int itp deaths_cell of
        Inl e \<Rightarrow> if e = ValueError then Inr (0, 0) else Inl e
      | Inr d \<Rightarrow>
          (case py_int itp recoveries_cell of
             Inl e \<Rightarrow> if e = ValueError then Inr (0, 0) else Inl e
           | Inr r \<Rightarrow> Inr (d, r)))"

text \<open>
  The body of the loop over the rows of the sheet, for one row: \<open>Inr None\<close> when the row
  is not of the US, \<open>Inr (Some r)\<close> for the record appended, \<open>Inl e\<close> for the exception
  that leaves the function.
\<close>

definition jhu_record :: "interpreter \<Rightarrow> pystr list \<Rightarrow> error + int row option" where
  "jhu_record itp r =
     (if length r < 6 then Inl IndexError
      else if r ! 1 = ascii ''US'' then
        (case py_int itp (r ! 3) of
           Inl e \<Rightarrow> Inl e
         | Inr n \<Rightarrow>
             (case parse_counts itp (r ! 4) (r ! 5) of
                Inl e \<Rightarrow> Inl e
              | Inr (d, rec) \<Rightarrow>
                  (case split_on 44 (r ! 0) of
                     [city_name, state_code] \<Rightarrow>
                       (case map_of state_map (remove_char 32 state_code) of
                          None \<Rightarrow> Inl KeyError
                        | Some full \<Rightarrow>
                            Inr (Some \<lparr>state = full, cases = n, deaths = d,
                                       recoveries = rec, city = city_name\<rparr>))
                   | _ \<Rightarrow> Inl ValueError)))
      else Inr None)"

fun jhu_loop :: "interpreter \<Rightarrow> pystr list list \<Rightarrow> int row list \<Rightarrow> error + int row list" where
  "jhu_loop itp [] records = Inr records"
| "jhu_loop itp (r # rest) records =
     (case jhu_record itp r of
        Inl e \<Rightarrow> Inl e
      | Inr None \<Rightarrow> jhu_loop itp rest records
      | Inr (Some rec) \<Rightarrow> jhu_loop itp rest (records @ [rec]))"

text \<open>
  \<^verbatim>\<open>get_jhu_data\<close>, as a function of what \<^verbatim>\<open>get_all_values()\<close> returned for the first
  worksheet. The five lists of the source grow together, one element each per US row; they
  are kept as one list of records, of which \<^verbatim>\<open>pd.DataFrame\<close> makes the frame. Its counts
  are the Python integers parsed, which pandas stores as int64 when they all fit in 64
  bits. The connection to the sheet, the log lines and the CSV snapshot are not part of
  this function.
\<close>

definition get_jhu_data :: "interpreter \<Rightarrow> pystr list list \<Rightarrow> error + int row frame" where
  "get_jhu_data itp sheet =
     (case jhu_loop itp sheet [] of
        Inl e \<Rightarrow> Inl e
      | Inr records \<Rightarrow> Inr (data_frame records))"

section \<open>coronatracker.py: comparing with a snapshot\<close>

text \<open>
  A column taken out of a frame, \<^verbatim>\<open>frame[name]\<close>, is a Series of text or of integers.
\<close>

datatype series = Text "pystr list" | Numbers "int64 list"

definition frame_getitem :: "table \<Rightarrow> pystr \<Rightarrow> error + series" where
  "frame_getitem data name =
     (if name = ascii ''state'' then Inr (Text (map state (frame_rows data)))
      else if name = ascii ''city'' then Inr (Text (map city (frame_rows data)))
      else if name = ascii ''cases'' then Inr (Numbers (map cases (frame_rows data)))
      else if name = ascii ''deaths'' then Inr (Numbers (map deaths (frame_rows data)))
      else if name = ascii ''recoveries'' then Inr (Numbers (map recoveries (frame_rows data)))
      else Inl KeyError)"

definition series_length :: "series \<Rightarrow> nat" where
  "series_length s = (case s of Text xs \<Rightarrow> length xs | Numbers xs \<Rightarrow> length xs)"

text \<open>
  \<^verbatim>\<open>a != b\<close> on two Series with the default index: pandas refuses to compare Series
  that are not identically labelled (\<^verbatim>\<open>ValueError\<close>), and compares element by element
  otherwise. A text is never equal to a number.
\<close>

definition series_ne :: "series \<Rightarrow> series \<Rightarrow> error + bool list" where
  "series_ne a b =
     (if series_length a \<noteq> series_length b then Inl ValueError
      else
        (case (a, b) of
           (Text xs, Text ys) \<Rightarrow> Inr (map (\<lambda>(x, y). x \<noteq> y) (zip xs ys))
         | (Numbers xs, Numbers ys) \<Rightarrow> Inr (map (\<lambda>(x, y). x \<noteq> y) (zip xs ys))
         | _ \<Rightarrow> Inr (replicate (series_length a) True)))"

text \<open>
  The truth value of a Series, which the \<^verbatim>\<open>if\<close> of line 168 asks for: pandas defines
  \<^verbatim>\<open>__bool__\<close> of a Series to raise \<^verbatim>\<open>ValueError\<close> ("The truth value of a Series
  is ambiguous"), whatever its length and content.
\<close>

definition series_truth :: "bool list \<Rightarrow> error + bool" where
  "series_truth s = Inl ValueError"

fun is_new_loop :: "pystr list \<Rightarrow> table \<Rightarrow> table \<Rightarrow> error + bool" where
  "is_new_loop [] recent_data prev_data = Inr False"
| "is_new_loop (name # rest) recent_data prev_data =
     (case frame_getitem recent_data name of
        Inl e \<Rightarrow> Inl e
      | Inr a \<Rightarrow>
     (case frame_getitem prev_data name of
        Inl e \<Rightarrow> Inl e
      | Inr b \<Rightarrow>
     (case series_ne a b of
        Inl e \<Rightarrow> Inl e
      | Inr differs \<Rightarrow>
     (case series_truth differs of
        Inl e \<Rightarrow> Inl e
      | Inr t \<Rightarrow> if t then Inr True else is_new_loop rest recent_data prev_data))))"

text \<open>
  \<^verbatim>\<open>is_new_data(recent_data, source)\<close>. \<open>files\<close> is what \<^verbatim>\<open>pd.read_csv\<close> finds under
  a name (\<open>None\<close>: no such file), \<open>now_file_ext\<close> the suffix computed when the module
  was loaded.
\<close>

definition is_new_data ::
  "(pystr \<Rightarrow> table option) \<Rightarrow> pystr \<Rightarrow> table \<Rightarrow> pystr \<Rightarrow> error + bool" where
  "is_new_data files now_file_ext recent_data source =
     (case files (source @ now_file_ext) of
        None \<Rightarrow> Inl FileNotFoundError
      | Some prev_data \<Rightarrow>
          is_new_loop [ascii ''state'', ascii ''cases'', ascii ''deaths'', ascii ''recoveries'']
            recent_data prev_data)"

section \<open>coronatracker.py: the CDC table\<close>

text \<open>
  A \<^verbatim>\<open>tr\<close> element, as far as the loop reads it: the text of its first \<^verbatim>\<open>th\<close> and of
  its first \<^verbatim>\<open>td\<close>, \<open>None\<close> where \<^verbatim>\<open>find\<close> finds no such cell.
\<close>

record html_row =
  th :: "pystr option"
  td :: "pystr option"

record cdc_measure =
  measure :: pystr
  counts :: int

text \<open>The two \<^verbatim>\<open>replace\<close> calls of line 192; the section sign is code point 167.\<close>

definition strip_label :: "pystr \<Rightarrow> pystr" where
  "strip_label label = remove_char 58 (remove_char 167 label)"

fun cdc_loop ::
  "interpreter \<Rightarrow> html_row list \<Rightarrow> pystr list \<times> int list \<Rightarrow> error + pystr list \<times> int list" where
  "cdc_loop itp [] acc = Inr acc"
| "cdc_loop itp (entry # rest) (measures_acc, values_acc) =
     (case th entry of
        None \<Rightarrow> Inl AttributeError
      | Some label \<Rightarrow>
     (case td entry of
        None \<Rightarrow> Inl AttributeError
      | Some cell \<Rightarrow>
     (case py_int itp cell of
        Inl e \<Rightarrow> Inl e
      | Inr measure_val \<Rightarrow>
          if strip_label label \<noteq> ascii ''Total''
          then cdc_loop itp rest (measures_acc @ [strip_label label], values_acc @ [measure_val])
          else cdc_loop itp rest (measures_acc, values_acc))))"

text \<open>
  \<^verbatim>\<open>get_cdc_data\<close>, as a function of the rows of the first table of the page (\<open>None\<close>:
  the page has no table, and \<^verbatim>\<open>table.find_all\<close> fails on \<^verbatim>\<open>None\<close>). The result is the
  list of the rows of the frame returned.
\<close>

definition get_cdc_data :: "interpreter \<Rightarrow> html_row list option \<Rightarrow> error + cdc_measure list" where
  "get_cdc_data itp page =
     (case page of
        None \<Rightarrow> Inl AttributeError
      | Some rows \<Rightarrow>
          (case cdc_loop itp rows ([], []) of
             Inl e \<Rightarrow> Inl e
           | Inr (measures_acc, values_acc) \<Rightarrow>
               Inr (map (\<lambda>(m, v). \<lparr>measure = m, counts = v\<rparr>) (zip measures_acc values_acc))))"

section \<open>dataproccessor.py\<close>

text \<open>
  The time series frame: its columns in order, each a name and a Series. A list
  comprehension whose element can raise is \<open>traverse\<close>: it stops at the first exception.
\<close>

type_synonym ts_frame = "(pystr \<times> series) list"

fun traverse :: "('a \<Rightarrow> error + 'b) \<Rightarrow> 'a list \<Rightarrow> error + 'b list" where
  "traverse f [] = Inr []"
| "traverse f (x # xs) =
     (case f x of
        Inl e \<Rightarrow> Inl e
      | Inr y \<Rightarrow> (case traverse f xs of Inl e \<Rightarrow> Inl e | Inr ys \<Rightarrow> Inr (y # ys)))"

text \<open>
  \<^verbatim>\<open>data[column].tolist()\<close>: a name that several columns carry selects a frame, which
  has no \<^verbatim>\<open>tolist\<close>.
\<close>

definition column_tolist :: "ts_frame \<Rightarrow> pystr \<Rightarrow> error + series" where
  "column_tolist data name =
     (case filter (\<lambda>c. fst c = name) data of
        [] \<Rightarrow> Inl KeyError
      | [c] \<Rightarrow> Inr (snd c)
      | _ \<Rightarrow> Inl AttributeError)"

text \<open>
  \<^verbatim>\<open>np.sum\<close> of a list: the integers of an int64 column make an int64 array, whose sum
  is the sum of 64-bit words (on a platform whose numpy integer has 64 bits); text cannot
  be reduced; the sum of the empty list is zero.
\<close>

definition np_sum :: "series \<Rightarrow> error + int64" where
  "np_sum s =
     (case s of
        Numbers xs \<Rightarrow> Inr (sum_list xs)
      | Text xs \<Rightarrow> if xs = [] then Inr 0 else Inl TypeError)"

definition get_country_cumulative :: "ts_frame \<Rightarrow> error + int64 list" where
  "get_country_cumulative data =
     (case traverse (column_tolist data)
             (filter (\<lambda>name. name \<noteq> ascii ''state'' \<and> name \<noteq> ascii ''city'') (map fst data)) of
        Inl e \<Rightarrow> Inl e
      | Inr rates \<Rightarrow> traverse np_sum rates)"

text \<open>
  \<^verbatim>\<open>math.log\<close> raises \<^verbatim>\<open>ValueError\<close> on an argument that is not positive. Its value
  is the real logarithm here; the rounding of floating point is not modelled.
\<close>

definition math_log :: "int \<Rightarrow> error + real" where
  "math_log freq = (if freq \<le> 0 then Inl ValueError else Inr (ln (real_of_int freq)))"

text \<open>
  What numpy and matplotlib do with a drawing is a parameter: \<open>None\<close> when every call of
  the block returns, \<open>Some e\<close> when one raises \<open>e\<close>. A drawing is recorded as an effect
  once its block has returned.
\<close>

type_synonym backend = "drawing \<Rightarrow> error option"

definition make_time_series_plot :: "backend \<Rightarrow> int list \<Rightarrow> effect list \<times> (error + unit)" where
  "make_time_series_plot plt freqs =
     (case plt (RegularPanel freqs) of
        Some e \<Rightarrow> ([], Inl e)
      | None \<Rightarrow>
          (case traverse math_log freqs of
             Inl e \<Rightarrow> ([Draw (RegularPanel freqs)], Inl e)
           | Inr log_freqs \<Rightarrow>
               (case plt (LogPanel log_freqs) of
                  Some e \<Rightarrow> ([Draw (RegularPanel freqs)], Inl e)
                | None \<Rightarrow>
                    ([Draw (RegularPanel freqs), Draw (LogPanel log_freqs)], Inr ()))))"

text \<open>
  The frames of the process, by kind; a frame is named by its position in the list of its
  kind, and a new frame is put at the end. Frames that a call makes and drops before it
  returns (the selections inside \<^verbatim>\<open>get_data_for\<close>) are not recorded.
  \<^verbatim>\<open>make_plots(data)\<close> receives the list \<^verbatim>\<open>data\<close> of two frames, which the docstring
  types: the first is the frame of \<^verbatim>\<open>get_jhu_data\<close>, the second the time series; it is
  the pair of their positions here. No pandas operation of the function writes to a frame
  it is given: the comparison with the limit makes a Series, the indexing with that Series
  a new frame with the dtypes of the old one, and \<^verbatim>\<open>make_state_frame\<close> builds its frame
  from lists. The counts that \<^verbatim>\<open>get_country_cumulative\<close> returns are read as signed
  numbers by \<^verbatim>\<open>math.log\<close>.
\<close>

record store =
  region_frames :: "table list"
  state_frames :: "int64 state_row list list"
  series_frames :: "ts_frame list"

text \<open>\<^verbatim>\<open>frame.cases > limit\<close> and \<^verbatim>\<open>frame[mask]\<close>.\<close>

definition cases_above :: "int \<Rightarrow> table \<Rightarrow> bool list" where
  "cases_above limit data = map (\<lambda>r. limit < sint (cases r)) (frame_rows data)"

definition frame_index :: "bool list \<Rightarrow> 'r frame \<Rightarrow> 'r frame" where
  "frame_index keep data =
     (case data of
        Rows rs \<Rightarrow> Rows (select keep rs)
      | Unfilled \<Rightarrow> Unfilled)"

definition make_plots ::
  "regex_engine \<Rightarrow> backend \<Rightarrow> store \<Rightarrow> nat \<times> nat \<Rightarrow> store \<times> effect list \<times> (error + unit)" where
  "make_plots engine plt st data =
     (let fx0 = [Print (ascii ''Attempting to build plots!''), Log Info (ascii ''Making plots...'')];
          us_frame = region_frames st ! fst data;
          ts_data = series_frames st ! snd data;
          case_limit = 20;
          has_many_cases = cases_above case_limit us_frame;
          st1 = st\<lparr>region_frames := region_frames st @ [frame_index has_many_cases us_frame]\<rparr>;
          us_frame1 = region_frames st1 ! length (region_frames st)
      in
        (case plt FigureSetup of
           Some e \<Rightarrow> (st1, fx0, Inl e)
         | None \<Rightarrow>
        (case make_state_frame engine us_frame1 of
           Inl e \<Rightarrow> (st1, fx0 @ [Draw FigureSetup], Inl e)
         | Inr state_frame \<Rightarrow>
            (let st2 = st1\<lparr>state_frames := state_frames st1 @ [state_frame]\<rparr> in
        (case plt (StateChart state_frame) of
           Some e \<Rightarrow> (st2, fx0 @ [Draw FigureSetup], Inl e)
         | None \<Rightarrow>
        (case get_country_cumulative ts_data of
           Inl e \<Rightarrow> (st2, fx0 @ [Draw FigureSetup, Draw (StateChart state_frame)], Inl e)
         | Inr freqs \<Rightarrow>
        (case make_time_series_plot plt (map sint freqs) of
           (fx1, Inl e) \<Rightarrow>
             (st2, fx0 @ [Draw FigureSetup, Draw (StateChart state_frame)] @ fx1, Inl e)
         | (fx1, Inr u) \<Rightarrow>
             (st2, fx0 @ [Draw FigureSetup, Draw (StateChart state_frame)] @ fx1 @
                   [Log Info (ascii ''Created plots!'')], Inr ()))))))))"

section \<open>coronatracker.py: the polling loop\<close>

text \<open>
  \<^verbatim>\<open>main\<close> as a control structure. What the outside world does to the \<open>k\<close>-th
  activation of \<^verbatim>\<open>main\<close> is \<open>env k\<close>: \<open>work\<close> is the exception that its downloads and
  charts (lines 255 to 287) raise, if any, and \<open>interrupted\<close> says whether Ctrl+C arrives
  during its sleep. The creation of the directories on the first run is left out.

  Python bounds the depth of recursion: \<open>depth\<close> is the number of nested activations of
  \<^verbatim>\<open>main\<close> the interpreter still has room for, and a call beyond it raises
  \<^verbatim>\<open>RecursionError\<close> at the call. That call stands inside the \<^verbatim>\<open>try\<close> block of the
  caller, whose handler catches \<^verbatim>\<open>KeyboardInterrupt\<close> only.
\<close>

record cycle =
  work :: "error option"
  interrupted :: bool

datatype outcome = Returned | Raised error

definition banner :: "effect list" where
  "banner =
     [Print (replicate 50 61 @ [32, 10, 32] @ replicate 10 32 @
             ascii ''2019-nCoV Tracker (U.S)'' @ [10, 32] @ replicate 50 61),
      Print (ascii ''To break this program out of its loop, press Ctrl+C'')]"

definition sleep_message :: effect where
  "sleep_message =
     Print (ascii ''Sleeping now for one minute! Will check for new data afterwards...'')"

fun main :: "(nat \<Rightarrow> cycle) \<Rightarrow> nat \<Rightarrow> nat \<Rightarrow> bool \<Rightarrow> effect list \<times> outcome" where
  "main env 0 k first_run = ([], Raised RecursionError)"
| "main env (Suc depth) k first_run =
     (let fx0 = [Log Info (ascii ''Starting tracker loop'')] @ (if first_run then banner else [])
      in
        (case work (env k) of
           Some e \<Rightarrow> (fx0, Raised e)
         | None \<Rightarrow>
             if interrupted (env k)
             then (fx0 @ [FetchPlot, sleep_message, Print (ascii ''Exiting...'')], Returned)
             else
               (case main env depth (Suc k) False of
                  (fx1, Returned) \<Rightarrow>
                    (fx0 @ [FetchPlot, sleep_message, Sleep 60] @ fx1, Returned)
                | (fx1, Raised e) \<Rightarrow>
                    if e = KeyboardInterrupt
                    then (fx0 @ [FetchPlot, sleep_message, Sleep 60] @ fx1 @
                          [Print (ascii ''Exiting...'')], Returned)
                    else (fx0 @ [FetchPlot, sleep_message, Sleep 60] @ fx1, Raised e))))"

text \<open>The number of fetch and plot cycles a run went through.\<close>

definition cycles :: "effect list \<Rightarrow> nat" where
  "cycles fx = length (filter (\<lambda>x. x = FetchPlot) fx)"

section \<open>Notions used in the statements\<close>

text \<open>
  What it means for a text to contain a match of a pattern of ordinary characters and
  dots: some piece of the text has the length of the pattern and agrees with it character
  by character, a dot of the pattern standing for any character but a newline.
\<close>

definition dot_match :: "pystr \<Rightarrow> pystr \<Rightarrow> bool" where
  "dot_match pat mid = list_all2 (\<lambda>p c. if p = 46 then c \<noteq> 10 else p = c) pat mid"

definition contains :: "pystr \<Rightarrow> pystr \<Rightarrow> bool" where
  "contains name s = (\<exists>pre mid post. s = pre @ mid @ post \<and> dot_match name mid)"

text \<open>The frame of the rows of a frame that satisfy a condition.\<close>

definition rows_where :: "('r \<Rightarrow> bool) \<Rightarrow> 'r frame \<Rightarrow> 'r frame" where
  "rows_where P data =
     (case data of
        Rows rs \<Rightarrow> Rows (filter P rs)
      | Unfilled \<Rightarrow> Unfilled)"

text \<open>A parsed row of the CDC table is kept when its stripped label is not Total.\<close>

definition keeps :: "pystr \<times> int \<Rightarrow> bool" where
  "keeps p = (strip_label (fst p) \<noteq> ascii ''Total'')"

text \<open>
  The distinct elements of a list in the order of their first occurrence, those of
  \<open>seen\<close> left out; and the sum of a column over the rows that \<^verbatim>\<open>get_data_for\<close> selects
  for a state name without special characters.
\<close>

fun first_seen :: "'a list \<Rightarrow> 'a list \<Rightarrow> 'a list" where
  "first_seen seen [] = []"
| "first_seen seen (x # xs) =
     (if x \<in> set seen then first_seen seen xs else x # first_seen (seen @ [x]) xs)"

definition total :: "variable \<Rightarrow> table \<Rightarrow> pystr \<Rightarrow> int64" where
  "total var data name =
     sum_list (map (cell_of var) (filter (\<lambda>r. contains name (state r)) (frame_rows data)))"

text \<open>Whether an integer is the value of an int64.\<close>

definition in_int64 :: "int \<Rightarrow> bool" where
  "in_int64 k = (- (2 ^ 63) \<le> k \<and> k < 2 ^ 63)"

section \<open>Selection by region\<close>

lemma match_here_iff: "match_here pat s = (\<exists>mid post. s = mid @ post \<and> dot_match pat mid)"
proof (induction pat s rule: match_here.induct)
  case (1 s)
  then show ?case by (simp add: dot_match_def)
next
  case (2 p ps)
  then show ?case by (simp add: dot_match_def)
next
  case (3 p ps c cs)
  show ?case
  proof
    assume "match_here (p # ps) (c # cs)"
    then have h: "(if p = 46 then c \<noteq> 10 else p = c)" and m: "match_here ps cs" by simp_all
    from m 3 obtain mid post where "cs = mid @ post" "dot_match ps mid" by auto
    with h have "c # cs = (c # mid) @ post \<and> dot_match (p # ps) (c # mid)"
      by (simp add: dot_match_def)
    then show "\<exists>mid post. c # cs = mid @ post \<and> dot_match (p # ps) mid" by blast
  next
    assume "\<exists>mid post. c # cs = mid @ post \<and> dot_match (p # ps) mid"
    then obtain mid post where e: "c # cs = mid @ post" and d: "dot_match (p # ps) mid" by blast
    from d obtain m ms where mm: "mid = m # ms" "(if p = 46 then m \<noteq> 10 else p = m)" "dot_match ps ms"
      by (auto simp: dot_match_def list_all2_Cons1)
    with e have "c = m" "cs = ms @ post" by simp_all
    with mm 3 show "match_here (p # ps) (c # cs)" by auto
  qed
qed

lemma re_search_iff: "re_search pat s = (\<exists>pre mid post. s = pre @ mid @ post \<and> dot_match pat mid)"
proof (induction s)
  case Nil
  then show ?case by (auto simp: match_here_iff)
next
  case (Cons c cs)
  show ?case
  proof
    assume "re_search pat (c # cs)"
    then consider "match_here pat (c # cs)" | "re_search pat cs" by auto
    then show "\<exists>pre mid post. c # cs = pre @ mid @ post \<and> dot_match pat mid"
    proof cases
      case 1
      then obtain mid post where "c # cs = [] @ mid @ post \<and> dot_match pat mid"
        by (auto simp: match_here_iff)
      then show ?thesis by blast
    next
      case 2
      with Cons obtain pre mid post where "cs = pre @ mid @ post" "dot_match pat mid" by auto
      then have "c # cs = (c # pre) @ mid @ post \<and> dot_match pat mid" by simp
      then show ?thesis by blast
    qed
  next
    assume "\<exists>pre mid post. c # cs = pre @ mid @ post \<and> dot_match pat mid"
    then obtain pre mid post where e: "c # cs = pre @ mid @ post" and d: "dot_match pat mid" by blast
    show "re_search pat (c # cs)"
    proof (cases pre)
      case Nil
      with e d have "match_here pat (c # cs)" by (auto simp: match_here_iff)
      then show ?thesis by simp
    next
      case (Cons a pre')
      with e have "cs = pre' @ mid @ post" by simp
      with d Cons.IH have "re_search pat cs" by blast
      then show ?thesis by simp
    qed
  qed
qed

lemma dot_match_plain: "46 \<notin> set pat \<Longrightarrow> dot_match pat mid = (mid = pat)"
  unfolding dot_match_def
  by (induction pat arbitrary: mid) (auto simp: list_all2_Cons1)

lemma select_filter: "select (map P xs) xs = filter P xs"
  by (induction xs) (simp_all add: select_def)

lemma contains_re_search: "re_search name s = contains name s"
  by (simp add: re_search_iff contains_def)

lemma re_compile_simple:
  "simple_pattern name \<Longrightarrow> re_compile engine name = Inr (contains name)"
  by (simp add: re_compile_def contains_re_search fun_eq_iff)

lemma contains_plain:
  "46 \<notin> set name \<Longrightarrow> contains name s = (\<exists>pre post. s = pre @ name @ post)"
  by (simp add: contains_def dot_match_plain)

lemma get_data_for_state:
  "get_data_for engine name var (Rows rs) (ascii ''state'') =
     (case re_compile engine name of
        Inl e \<Rightarrow> ([], Inl e)
      | Inr found \<Rightarrow> ([], Inr (map (cell_of var) (filter (\<lambda>r. found (state r)) rs))))"
proof -
  have "select (map (\<lambda>r. found (state r)) rs) rs = filter (\<lambda>r. found (state r)) rs"
    for found :: "pystr \<Rightarrow> bool"
    by (rule select_filter)
  then show ?thesis
    by (simp add: get_data_for_def contains_mask_def o_def split: sum.splits)
qed

lemma get_data_for_city:
  "get_data_for engine name var (Rows rs) (ascii ''city'') =
     (case re_compile engine name of
        Inl e \<Rightarrow> ([], Inl e)
      | Inr found \<Rightarrow> ([], Inr (map (cell_of var) (filter (\<lambda>r. found (city r)) rs))))"
proof -
  have "select (map (\<lambda>r. found (city r)) rs) rs = filter (\<lambda>r. found (city r)) rs"
    for found :: "pystr \<Rightarrow> bool"
    by (rule select_filter)
  moreover have "ascii ''city'' \<noteq> ascii ''state''"
    by (simp add: ascii_def)
  ultimately show ?thesis
    by (simp add: get_data_for_def contains_mask_def o_def split: sum.splits)
qed

lemma get_data_for_unfilled:
  "get_data_for engine name var Unfilled (ascii ''state'') = ([], Inl AttributeError)"
  "get_data_for engine name var Unfilled (ascii ''city'') = ([], Inl AttributeError)"
  by (simp_all add: get_data_for_def)

text \<open>
  C4, as amended. A region other than state and city: the warning is logged, then
  \<^verbatim>\<open>ValueError\<close> is raised, and nothing is returned. For state and city, the frame built
  from empty lists makes \<^verbatim>\<open>.str\<close> raise \<^verbatim>\<open>AttributeError\<close>. On every other frame the
  name is a regular expression: the exception of \<^verbatim>\<open>re.compile\<close> is raised when it does
  not compile (\<^verbatim>\<open>re.error\<close> for a name that is not well formed), and
  otherwise the column requested is returned for the rows whose state (city) contains a
  match of it. For a name without the special characters other than the dot, that is to
  contain a piece that agrees with the name, a dot standing for any character but a
  newline; and for a name without any special character it is to contain the name as a
  substring.
\<close>

theorem get_data_for_regions:
  "(region \<noteq> ascii ''state'' \<and> region \<noteq> ascii ''city'' \<longrightarrow>
      get_data_for engine name var data region =
        ([Log Warning (ascii ''Received invalid region '' @ region)], Inl ValueError))
   \<and> get_data_for engine name var Unfilled (ascii ''state'') = ([], Inl AttributeError)
   \<and> get_data_for engine name var Unfilled (ascii ''city'') = ([], Inl AttributeError)
   \<and> (re_compile engine name = Inl e \<longrightarrow>
      get_data_for engine name var (Rows rs) (ascii ''state'') = ([], Inl e)
      \<and> get_data_for engine name var (Rows rs) (ascii ''city'') = ([], Inl e))
   \<and> (re_compile engine name = Inr found \<longrightarrow>
      get_data_for engine name var (Rows rs) (ascii ''state'') =
        ([], Inr (map (cell_of var) (filter (\<lambda>r. found (state r)) rs)))
      \<and> get_data_for engine name var (Rows rs) (ascii ''city'') =
        ([], Inr (map (cell_of var) (filter (\<lambda>r. found (city r)) rs))))
   \<and> (simple_pattern name \<longrightarrow>
      get_data_for engine name var (Rows rs) (ascii ''state'') =
        ([], Inr (map (cell_of var) (filter (\<lambda>r. contains name (state r)) rs)))
      \<and> get_data_for engine name var (Rows rs) (ascii ''city'') =
        ([], Inr (map (cell_of var) (filter (\<lambda>r. contains name (city r)) rs))))
   \<and> (simple_pattern name \<and> 46 \<notin> set name \<longrightarrow>
      get_data_for engine name var (Rows rs) (ascii ''state'') =
        ([], Inr (map (cell_of var) (filter (\<lambda>r. \<exists>pre post. state r = pre @ name @ post) rs)))
      \<and> get_data_for engine name var (Rows rs) (ascii ''city'') =
        ([], Inr (map (cell_of var) (filter (\<lambda>r. \<exists>pre post. city r = pre @ name @ post) rs))))"
proof (intro conjI impI)
  assume "region \<noteq> ascii ''state'' \<and> region \<noteq> ascii ''city''"
  then show "get_data_for engine name var data region =
        ([Log Warning (ascii ''Received invalid region '' @ region)], Inl ValueError)"
    by (simp add: get_data_for_def)
qed (simp_all add: get_data_for_state get_data_for_city get_data_for_unfilled
    re_compile_simple contains_plain)

text \<open>
  The name \<^verbatim>\<open>.\<close> selects the row of Ohio, whose state does not contain a full stop.
  The name has no special character but the dot, so the engine is not asked; it is one
  that refuses every pattern here.
\<close>

theorem get_data_for_dot_counterexample:
  "get_data_for (\<lambda>pat. Inl ReError) (ascii ''.'') Cases
     (Rows [\<lparr>state = ascii ''Ohio'', cases = 7, deaths = 1, recoveries = 0,
             city = ascii ''Akron''\<rparr>])
     (ascii ''state'') = ([], Inr [7])
   \<and> \<not> (\<exists>pre post. ascii ''Ohio'' = pre @ ascii ''.'' @ post)"
proof
  show "get_data_for (\<lambda>pat. Inl ReError) (ascii ''.'') Cases
     (Rows [\<lparr>state = ascii ''Ohio'', cases = 7, deaths = 1, recoveries = 0,
             city = ascii ''Akron''\<rparr>])
     (ascii ''state'') = ([], Inr [7])"
    by (simp add: get_data_for_def contains_mask_def re_compile_def simple_pattern_def
        regex_operators_def ascii_def select_def)
  show "\<not> (\<exists>pre post. ascii ''Ohio'' = pre @ ascii ''.'' @ post)"
  proof
    assume "\<exists>pre post. ascii ''Ohio'' = pre @ ascii ''.'' @ post"
    then obtain pre post where "ascii ''Ohio'' = pre @ ascii ''.'' @ post" by blast
    moreover have "46 \<in> set (pre @ ascii ''.'' @ post)" by (simp add: ascii_def)
    ultimately have "46 \<in> set (ascii ''Ohio'')" by simp
    then show False by (simp add: ascii_def)
  qed
qed

text \<open>
  Three rows, asked for the deaths: by the region county; by a name that does not compile
  (an engine that refuses \<^verbatim>\<open>(\<close>); and by the name Kansas, for the state and for the city.
\<close>

theorem get_data_for_regions_witness:
  "get_data_for (\<lambda>pat. Inl ReError) (ascii ''Kansas'') Deaths
     (Rows [\<lparr>state = ascii ''Kansas'', cases = 7, deaths = 1, recoveries = 0,
             city = ascii ''Kansas City''\<rparr>,
            \<lparr>state = ascii ''Missouri'', cases = 9, deaths = 2, recoveries = 0,
             city = ascii ''Kansas City''\<rparr>,
            \<lparr>state = ascii ''Ohio'', cases = 3, deaths = 4, recoveries = 0,
             city = ascii ''Akron''\<rparr>])
     (ascii ''county'') = ([Log Warning (ascii ''Received invalid region county'')], Inl ValueError)
   \<and> get_data_for (\<lambda>pat. Inl ReError) (ascii ''('') Deaths
     (Rows [\<lparr>state = ascii ''Kansas'', cases = 7, deaths = 1, recoveries = 0,
             city = ascii ''Kansas City''\<rparr>,
            \<lparr>state = ascii ''Missouri'', cases = 9, deaths = 2, recoveries = 0,
             city = ascii ''Kansas City''\<rparr>,
            \<lparr>state = ascii ''Ohio'', cases = 3, deaths = 4, recoveries = 0,
             city = ascii ''Akron''\<rparr>])
     (ascii ''state'') = ([], Inl ReError)
   \<and> get_data_for (\<lambda>pat. Inl ReError) (ascii ''Kansas'') Deaths
     (Rows [\<lparr>state = ascii ''Kansas'', cases = 7, deaths = 1, recoveries = 0,
             city = ascii ''Kansas City''\<rparr>,
            \<lparr>state = ascii ''Missouri'', cases = 9, deaths = 2, recoveries = 0,
             city = ascii ''Kansas City''\<rparr>,
            \<lparr>state = ascii ''Ohio'', cases = 3, deaths = 4, recoveries = 0,
             city = ascii ''Akron''\<rparr>])
     (ascii ''state'') = ([], Inr [1])
   \<and> get_data_for (\<lambda>pat. Inl ReError) (ascii ''Kansas'') Deaths
     (Rows [\<lparr>state = ascii ''Kansas'', cases = 7, deaths = 1, recoveries = 0,
             city = ascii ''Kansas City''\<rparr>,
            \<lparr>state = ascii ''Missouri'', cases = 9, deaths = 2, recoveries = 0,
             city = ascii ''Kansas City''\<rparr>,
            \<lparr>state = ascii ''Ohio'', cases = 3, deaths = 4, recoveries = 0,
             city = ascii ''Akron''\<rparr>])
     (ascii ''city'') = ([], Inr [1, 2])"
proof -
  let ?rs = "[\<lparr>state = ascii ''Kansas'', cases = 7 :: int64, deaths = 1, recoveries = 0,
             city = ascii ''Kansas City''\<rparr>,
            \<lparr>state = ascii ''Missouri'', cases = 9, deaths = 2, recoveries = 0,
             city = ascii ''Kansas City''\<rparr>,
            \<lparr>state = ascii ''Ohio'', cases = 3, deaths = 4, recoveries = 0,
             city = ascii ''Akron''\<rparr>]"
  let ?no = "(\<lambda>pat. Inl ReError) :: regex_engine"
  have r: "ascii ''county'' \<noteq> ascii ''state'' \<and> ascii ''county'' \<noteq> ascii ''city''"
    by (simp add: ascii_def)
  have p: "simple_pattern (ascii ''Kansas'')"
    by (simp add: simple_pattern_def regex_operators_def ascii_def)
  have d: "46 \<notin> set (ascii ''Kansas'')"
    by (simp add: ascii_def)
  have n: "re_compile ?no (ascii ''('') = Inl ReError"
    by (simp add: re_compile_def simple_pattern_def regex_operators_def ascii_def)
  have s: "re_compile ?no (ascii ''Kansas'') = Inr (re_search (ascii ''Kansas''))"
    using p by (simp add: re_compile_def)
  have a: "get_data_for ?no (ascii ''Kansas'') Deaths (Rows ?rs) (ascii ''county'') =
      ([Log Warning (ascii ''Received invalid region '' @ ascii ''county'')], Inl ValueError)"
    using get_data_for_regions [where region = "ascii ''county''" and engine = ?no and name = "ascii ''Kansas''" and var = Deaths and data = "Rows ?rs"] r
    by blast
  have b: "get_data_for ?no (ascii ''('') Deaths (Rows ?rs) (ascii ''state'') = ([], Inl ReError)"
    using get_data_for_regions [where region = "ascii ''county''" and engine = ?no and name = "ascii ''(''" and var = Deaths and data = "Rows ?rs" and rs = ?rs
        and e = ReError] n
    by blast
  have c: "get_data_for ?no (ascii ''Kansas'') Deaths (Rows ?rs) (ascii ''state'') =
        ([], Inr (map (cell_of Deaths) (filter (\<lambda>r. re_search (ascii ''Kansas'') (state r)) ?rs)))"
    "get_data_for ?no (ascii ''Kansas'') Deaths (Rows ?rs) (ascii ''city'') =
        ([], Inr (map (cell_of Deaths) (filter (\<lambda>r. re_search (ascii ''Kansas'') (city r)) ?rs)))"
    using get_data_for_regions [where region = "ascii ''county''" and engine = ?no and name = "ascii ''Kansas''" and var = Deaths and data = "Rows ?rs" and rs = ?rs
        and found = "re_search (ascii ''Kansas'')"] s
    by blast+
  have e: "get_data_for ?no (ascii ''Kansas'') Deaths (Rows ?rs) (ascii ''state'') =
        ([], Inr (map (cell_of Deaths)
           (filter (\<lambda>r. \<exists>pre post. state r = pre @ ascii ''Kansas'' @ post) ?rs)))"
    using get_data_for_regions [where region = "ascii ''county''" and engine = ?no and name = "ascii ''Kansas''" and var = Deaths and data = "Rows ?rs" and rs = ?rs] p d
    by blast
  have f: "get_data_for ?no (ascii ''Kansas'') Deaths (Rows ?rs) (ascii ''city'') =
        ([], Inr (map (cell_of Deaths) (filter (\<lambda>r. contains (ascii ''Kansas'') (city r)) ?rs)))"
    using get_data_for_regions [where region = "ascii ''county''" and engine = ?no and name = "ascii ''Kansas''" and var = Deaths and data = "Rows ?rs" and rs = ?rs] p
    by blast
  from a b c e f show ?thesis
    by (simp add: ascii_def)
qed

section \<open>State aggregation\<close>

text \<open>
  What \<^verbatim>\<open>make_state_frame\<close> computes when the state names have no special character
  other than the dot, as the values of \<^verbatim>\<open>state_map\<close> have none at all: one row for each
  distinct state name, in the order of first occurrence, with the sums over the rows whose
  state contains a match of that name.
\<close>

lemma first_seen_set: "set (first_seen seen xs) = set xs - set seen"
  by (induction xs arbitrary: seen) auto

lemma first_seen_distinct: "distinct (first_seen seen xs)"
  by (induction xs arbitrary: seen) (auto simp: first_seen_set)

lemma state_loop_total:
  "list_all simple_pattern names \<Longrightarrow>
   state_loop engine (Rows rows) names (seen, cs, ds, rs) =
     Inr (seen @ first_seen seen names,
          cs @ map (total Cases (Rows rows)) (first_seen seen names),
          ds @ map (total Deaths (Rows rows)) (first_seen seen names),
          rs @ map (total Recoveries (Rows rows)) (first_seen seen names))"
proof (induction names arbitrary: seen cs ds rs)
  case Nil
  then show ?case by simp
next
  case (Cons s names)
  then have p: "simple_pattern s" and ps: "list_all simple_pattern names" by simp_all
  have g: "snd (get_data_for engine s var (Rows rows) (ascii ''state'')) =
      Inr (map (cell_of var) (filter (\<lambda>r. contains s (state r)) rows))" for var
    by (simp add: get_data_for_state re_compile_simple [OF p])
  show ?case
    by (simp add: g Cons.IH [OF ps] total_def frame_rows_def)
qed

lemma state_frame_of_maps:
  "state_frame_of (xs, map f xs, map g xs, map h xs) =
     map (\<lambda>s. \<lparr>state = s, cases = f s, deaths = g s, recoveries = h s\<rparr>) xs"
  by (induction xs) simp_all

lemma make_state_frame_total:
  "list_all simple_pattern (map state (frame_rows data)) \<Longrightarrow>
   make_state_frame engine data =
     Inr (map (\<lambda>s. \<lparr>state = s, cases = total Cases data s, deaths = total Deaths data s,
                     recoveries = total Recoveries data s\<rparr>)
            (first_seen [] (map state (frame_rows data))))"
proof (cases data)
  case (Rows rows)
  assume "list_all simple_pattern (map state (frame_rows data))"
  with Rows show ?thesis
    by (simp add: make_state_frame_def state_loop_total state_frame_of_maps frame_rows_def
        del: state_frame_of.simps)
next
  case Unfilled
  then show ?thesis
    by (simp add: make_state_frame_def frame_rows_def)
qed

text \<open>
  C1. \<^verbatim>\<open>make_state_frame\<close> is to return, for each state, the sums over exactly the rows
  of that state. It selects the rows of a state with \<^verbatim>\<open>str.contains\<close>, so that the rows
  of West Virginia are counted for Virginia as well: with Richmond (10 cases, 1 death,
  0 recoveries) and Charleston, West Virginia (5, 2, 1), the row of Virginia reads
  15, 3, 1, while the rows whose state is Virginia sum to 10 cases.
\<close>

theorem make_state_frame_virginia:
  "make_state_frame engine
     (Rows [\<lparr>state = ascii ''Virginia'', cases = 10, deaths = 1, recoveries = 0,
             city = ascii ''Richmond''\<rparr>,
            \<lparr>state = ascii ''West Virginia'', cases = 5, deaths = 2, recoveries = 1,
             city = ascii ''Charleston''\<rparr>])
   = Inr [\<lparr>state = ascii ''Virginia'', cases = 15, deaths = 3, recoveries = 1\<rparr>,
          \<lparr>state = ascii ''West Virginia'', cases = 5, deaths = 2, recoveries = 1\<rparr>]
   \<and> sum_list (map cases (filter (\<lambda>r. state r = ascii ''Virginia'')
     [\<lparr>state = ascii ''Virginia'', cases = 10 :: int64, deaths = 1 :: int64,
       recoveries = 0 :: int64, city = ascii ''Richmond''\<rparr>,
      \<lparr>state = ascii ''West Virginia'', cases = 5, deaths = 2, recoveries = 1,
       city = ascii ''Charleston''\<rparr>])) = 10"
  by (simp add: make_state_frame_def get_data_for_def contains_mask_def re_compile_def
      simple_pattern_def regex_operators_def ascii_def select_def frame_rows_def)

section \<open>Reading the sheet\<close>

text \<open>Two cells that both parse give their numbers; a deaths cell that does not parse
  gives two zeros.\<close>

lemma parse_counts_both:
  "py_int itp deaths_cell = Inr d \<Longrightarrow> py_int itp recoveries_cell = Inr r \<Longrightarrow>
   parse_counts itp deaths_cell recoveries_cell = Inr (d, r)"
  by (simp add: parse_counts_def)

lemma parse_counts_blank_deaths:
  "py_int itp deaths_cell = Inl ValueError \<Longrightarrow>
   parse_counts itp deaths_cell recoveries_cell = Inr (0, 0)"
  by (simp add: parse_counts_def)

lemma py_int_blank: "py_int itp [] = Inl ValueError"
  by (simp add: py_int_def py_strip_def transform_decimal_and_space_def)

text \<open>A sheet without a row of the US gives the frame of empty lists.\<close>

lemma get_jhu_data_no_rows: "get_jhu_data itp [] = Inr Unfilled"
  by (simp add: get_jhu_data_def data_frame_def)

text \<open>
  C2. The deaths and the recoveries of a row are to default to 0 independently. For the
  row of Seattle with 10 cases, the deaths cell 5 and a blank recoveries cell, the
  conversion of the blank cell fails inside the common \<^verbatim>\<open>try\<close> block and the handler
  sets the deaths to 0 too, although the deaths cell parses as 5.
\<close>

theorem get_jhu_data_blank_recoveries:
  "get_jhu_data itp
     [[ascii ''Seattle, WA'', ascii ''US'', ascii ''3/10/2020'', ascii ''10'', ascii ''5'',
       []]]
   = Inr (Rows [\<lparr>state = ascii ''Washington'', cases = 10, deaths = 0, recoveries = 0,
                 city = ascii ''Seattle''\<rparr>])
   \<and> py_int itp (ascii ''5'') = Inr 5"
  by (simp add: get_jhu_data_def data_frame_def jhu_record_def py_int_def py_strip_def
      transform_decimal_and_space_def is_space_def is_digit_def parse_number_def
      too_many_digits_def parse_unsigned_def parse_counts_def remove_char_def state_map_def
      ascii_def)

section \<open>Comparing with a snapshot\<close>

lemma is_new_loop_raises: "is_new_loop (name # rest) recent_data prev_data \<noteq> Inr b"
  by (simp add: series_truth_def split: sum.splits)

text \<open>
  \<^verbatim>\<open>is_new_data\<close> returns no boolean at all: the snapshot is missing, or the first column
  compared is a Series, whose truth value pandas refuses to give.
\<close>

lemma is_new_data_never_returns: "is_new_data files ext recent_data source \<noteq> Inr b"
  by (simp add: is_new_data_def is_new_loop_raises del: is_new_loop.simps split: option.splits)

text \<open>
  C3. \<^verbatim>\<open>is_new_data\<close> is to return false when the recent table equals the snapshot. For
  a table of two rows and a snapshot holding the same two rows it raises
  \<^verbatim>\<open>ValueError\<close> at the \<^verbatim>\<open>if\<close> over the comparison of the state columns.
\<close>

theorem is_new_data_same_table:
  "is_new_data
     (\<lambda>name. Some
        (Rows [\<lparr>state = ascii ''Ohio'', cases = 10, deaths = 1, recoveries = 0,
                city = ascii ''Akron''\<rparr>,
               \<lparr>state = ascii ''Utah'', cases = 5, deaths = 2, recoveries = 1,
                city = ascii ''Provo''\<rparr>]))
     (ascii ''03_14_12_00_00.csv'')
     (Rows [\<lparr>state = ascii ''Ohio'', cases = 10, deaths = 1, recoveries = 0,
             city = ascii ''Akron''\<rparr>,
            \<lparr>state = ascii ''Utah'', cases = 5, deaths = 2, recoveries = 1,
             city = ascii ''Provo''\<rparr>])
     (ascii ''jhu'')
   = Inl ValueError"
  by (simp add: is_new_data_def frame_getitem_def series_ne_def series_truth_def
      series_length_def frame_rows_def)

section \<open>The CDC table\<close>

text \<open>
  \<^verbatim>\<open>int\<close> on three cells: a unit separator after the number is not white space; a
  no-break space is, in an interpreter whose table says so; grouping by commas is refused.
\<close>

lemma py_int_unit_separator: "py_int itp (ascii ''30'' @ [31]) = Inl ValueError"
  by (simp add: py_int_def py_strip_def transform_decimal_and_space_def is_space_def
      is_digit_def parse_number_def too_many_digits_def parse_unsigned_def ascii_def)

lemma py_int_no_break_space:
  "unicode_space itp 160 \<Longrightarrow> py_int itp (ascii ''12'' @ [160]) = Inr 12"
  by (simp add: py_int_def py_strip_def transform_decimal_and_space_def to_ascii_def
      is_space_def is_digit_def parse_number_def too_many_digits_def parse_unsigned_def ascii_def)

lemma py_int_comma: "py_int itp (ascii ''1,215'') = Inl ValueError"
  by (simp add: py_int_def py_strip_def transform_decimal_and_space_def is_space_def
      is_digit_def parse_number_def too_many_digits_def parse_unsigned_def ascii_def)

lemma cdc_loop_parsed:
  "list_all2 (\<lambda>entry p. th entry = Some (fst p) \<and> (\<exists>cell. td entry = Some cell \<and> py_int itp cell = Inr (snd p)))
     rows parsed \<Longrightarrow>
   cdc_loop itp rows (ms, vs) =
     Inr (ms @ map (\<lambda>p. strip_label (fst p)) (filter keeps parsed),
          vs @ map snd (filter keeps parsed))"
proof (induction rows parsed arbitrary: ms vs rule: list_all2_induct)
  case Nil
  then show ?case by simp
next
  case (Cons entry rows p parsed)
  from Cons.hyps(1) obtain cell where c: "th entry = Some (fst p)" "td entry = Some cell"
    "py_int itp cell = Inr (snd p)" by blast
  show ?case
  proof (cases "keeps p")
    case True
    then have "cdc_loop itp (entry # rows) (ms, vs) =
        cdc_loop itp rows (ms @ [strip_label (fst p)], vs @ [snd p])"
      using c by (simp add: keeps_def)
    then show ?thesis using True by (simp add: Cons.IH)
  next
    case False
    then have "cdc_loop itp (entry # rows) (ms, vs) = cdc_loop itp rows (ms, vs)"
      using c by (simp add: keeps_def)
    then show ?thesis using False by (simp add: Cons.IH)
  qed
qed

lemma strip_label_filter: "strip_label label = filter (\<lambda>c. c \<noteq> 167 \<and> c \<noteq> 58) label"
  by (simp add: strip_label_def remove_char_def conj_commute)

lemma zip_two_maps: "zip (map f xs) (map g xs) = map (\<lambda>x. (f x, g x)) xs"
  by (induction xs) simp_all

text \<open>
  C5, as amended. Let every row of the table have a header cell and a data cell that
  \<^verbatim>\<open>int\<close> accepts (\<open>parsed\<close> lists the labels and the counts, in page order). Then the
  result holds, in page order, exactly the rows whose label is not Total once the section
  sign and the colon are removed from it, each with those two characters removed from its
  label and with its count as an integer; the rows whose label is Total after the removal
  are left out, wherever they stand.
\<close>

theorem get_cdc_data_rows:
  "list_all2 (\<lambda>entry (label, n). th entry = Some label \<and>
        (\<exists>cell. td entry = Some cell \<and> py_int itp cell = Inr n)) rows parsed \<Longrightarrow>
   get_cdc_data itp (Some rows) =
     Inr (map (\<lambda>(label, n). \<lparr>measure = filter (\<lambda>c. c \<noteq> 167 \<and> c \<noteq> 58) label, counts = n\<rparr>)
           (filter (\<lambda>(label, n). filter (\<lambda>c. c \<noteq> 167 \<and> c \<noteq> 58) label \<noteq> ascii ''Total'')
              parsed))"
proof -
  assume "list_all2 (\<lambda>entry (label, n). th entry = Some label \<and>
        (\<exists>cell. td entry = Some cell \<and> py_int itp cell = Inr n)) rows parsed"
  then have "list_all2 (\<lambda>entry p. th entry = Some (fst p) \<and>
        (\<exists>cell. td entry = Some cell \<and> py_int itp cell = Inr (snd p))) rows parsed"
    by (simp add: case_prod_unfold)
  then have "cdc_loop itp rows ([], []) =
     Inr (map (\<lambda>p. strip_label (fst p)) (filter keeps parsed), map snd (filter keeps parsed))"
    using cdc_loop_parsed [where ms = "[]" and vs = "[]"] by simp
  then have "get_cdc_data itp (Some rows) =
     Inr (map (\<lambda>p. \<lparr>measure = strip_label (fst p), counts = snd p\<rparr>) (filter keeps parsed))"
    by (simp add: get_cdc_data_def zip_two_maps)
  moreover have "keeps = (\<lambda>(label, n). filter (\<lambda>c. c \<noteq> 167 \<and> c \<noteq> 58) label \<noteq> ascii ''Total'')"
    by (auto simp: keeps_def strip_label_filter fun_eq_iff)
  ultimately show ?thesis
    by (simp add: strip_label_filter case_prod_unfold)
qed

text \<open>
  A table of three rows, read by an interpreter with empty tables and no bound on the
  digits (the cells are ASCII digits, for which none of them is consulted).
\<close>

theorem get_cdc_data_rows_witness:
  "get_cdc_data
     \<lparr>unicode_space = (\<lambda>c. False), unicode_decimal = (\<lambda>c. None), max_str_digits = 0\<rparr>
     (Some
     [\<lparr>th = Some (ascii ''Positive'' @ [167]), td = Some (ascii ''12'')\<rparr>,
      \<lparr>th = Some (ascii ''Total''), td = Some (ascii ''30'')\<rparr>,
      \<lparr>th = Some (ascii ''Pending:''), td = Some (ascii ''18'')\<rparr>])
   = Inr [\<lparr>measure = ascii ''Positive'', counts = 12\<rparr>,
          \<lparr>measure = ascii ''Pending'', counts = 18\<rparr>]"
proof -
  let ?itp = "\<lparr>unicode_space = (\<lambda>c. False), unicode_decimal = (\<lambda>c. None), max_str_digits = 0\<rparr>"
  have i: "py_int ?itp (ascii ''12'') = Inr 12" "py_int ?itp (ascii ''30'') = Inr 30"
    "py_int ?itp (ascii ''18'') = Inr 18"
    by (simp_all add: py_int_def py_strip_def transform_decimal_and_space_def is_space_def
        is_digit_def parse_number_def too_many_digits_def parse_unsigned_def ascii_def)
  have "list_all2 (\<lambda>entry (label, n). th entry = Some label \<and>
        (\<exists>cell. td entry = Some cell \<and> py_int ?itp cell = Inr n))
     [\<lparr>th = Some (ascii ''Positive'' @ [167]), td = Some (ascii ''12'')\<rparr>,
      \<lparr>th = Some (ascii ''Total''), td = Some (ascii ''30'')\<rparr>,
      \<lparr>th = Some (ascii ''Pending:''), td = Some (ascii ''18'')\<rparr>]
     [(ascii ''Positive'' @ [167], 12), (ascii ''Total'', 30), (ascii ''Pending:'', 18)]"
    using i by simp
  from get_cdc_data_rows [OF this] show ?thesis
    by (simp add: ascii_def)
qed

text \<open>
  The row labelled \<^verbatim>\<open>Total:\<close> is not a row whose label is exactly Total, and it does
  not appear in the result. The cells are ASCII digits, for which \<^verbatim>\<open>int\<close> consults none
  of the tables of the interpreter; the interpreter here has empty tables and no bound on
  the digits.
\<close>

theorem get_cdc_data_total_colon:
  "get_cdc_data
     \<lparr>unicode_space = (\<lambda>c. False), unicode_decimal = (\<lambda>c. None), max_str_digits = 0\<rparr>
     (Some
     [\<lparr>th = Some (ascii ''Positive''), td = Some (ascii ''12'')\<rparr>,
      \<lparr>th = Some (ascii ''Total:''), td = Some (ascii ''30'')\<rparr>])
   = Inr [\<lparr>measure = ascii ''Positive'', counts = 12\<rparr>]
   \<and> ascii ''Total:'' \<noteq> ascii ''Total''"
  by (simp add: get_cdc_data_def strip_label_def remove_char_def py_int_def py_strip_def
      transform_decimal_and_space_def is_space_def is_digit_def parse_number_def
      too_many_digits_def parse_unsigned_def ascii_def)

lemma cdc_loop_append:
  "cdc_loop itp (xs @ ys) acc =
     (case cdc_loop itp xs acc of Inl e \<Rightarrow> Inl e | Inr acc' \<Rightarrow> cdc_loop itp ys acc')"
proof (induction xs arbitrary: acc)
  case Nil
  then show ?case by simp
next
  case (Cons x xs)
  obtain ms vs where "acc = (ms, vs)" by (cases acc)
  then show ?case
    by (simp add: Cons.IH split: option.splits sum.splits)
qed

text \<open>
  C10. The two characters are removed before the label is compared with Total: a row
  whose label is Total after the removal (and whose count is an integer) is left out, so
  the result is the one of the table without that row. \<^verbatim>\<open>Total:\<close> and Total followed
  by the section sign are such labels.
\<close>

theorem get_cdc_data_stripped_total:
  "strip_label label = ascii ''Total'' \<Longrightarrow> py_int itp cell = Inr n \<Longrightarrow>
   get_cdc_data itp (Some (earlier @ [\<lparr>th = Some label, td = Some cell\<rparr>] @ later)) =
   get_cdc_data itp (Some (earlier @ later))"
proof -
  assume a: "strip_label label = ascii ''Total''" "py_int itp cell = Inr n"
  have "cdc_loop itp ([\<lparr>th = Some label, td = Some cell\<rparr>] @ later) acc = cdc_loop itp later acc" for acc
    using a by (cases acc) simp
  then have "cdc_loop itp (earlier @ [\<lparr>th = Some label, td = Some cell\<rparr>] @ later) ([], []) =
      cdc_loop itp (earlier @ later) ([], [])"
    by (simp only: cdc_loop_append [where xs = earlier])
  then show ?thesis
    by (simp add: get_cdc_data_def)
qed

theorem get_cdc_data_stripped_total_witness:
  "strip_label (ascii ''Total:'') = ascii ''Total'' \<and>
   strip_label (ascii ''Total'' @ [167]) = ascii ''Total'' \<and>
   get_cdc_data
     \<lparr>unicode_space = (\<lambda>c. False), unicode_decimal = (\<lambda>c. None), max_str_digits = 0\<rparr>
     (Some
     [\<lparr>th = Some (ascii ''Positive''), td = Some (ascii ''12'')\<rparr>,
      \<lparr>th = Some (ascii ''Total:''), td = Some (ascii ''30'')\<rparr>,
      \<lparr>th = Some (ascii ''Total'' @ [167]), td = Some (ascii ''30'')\<rparr>,
      \<lparr>th = Some (ascii ''Pending''), td = Some (ascii ''18'')\<rparr>])
   = Inr [\<lparr>measure = ascii ''Positive'', counts = 12\<rparr>,
          \<lparr>measure = ascii ''Pending'', counts = 18\<rparr>]"
proof -
  let ?itp = "\<lparr>unicode_space = (\<lambda>c. False), unicode_decimal = (\<lambda>c. None), max_str_digits = 0\<rparr>"
  have s: "strip_label (ascii ''Total:'') = ascii ''Total''"
    "strip_label (ascii ''Total'' @ [167]) = ascii ''Total''"
    by (simp_all add: strip_label_def remove_char_def ascii_def)
  have i: "py_int ?itp (ascii ''30'') = Inr 30"
    by (simp add: py_int_def py_strip_def transform_decimal_and_space_def is_space_def
        is_digit_def parse_number_def too_many_digits_def parse_unsigned_def ascii_def)
  have r: "get_cdc_data ?itp (Some
     [\<lparr>th = Some (ascii ''Positive''), td = Some (ascii ''12'')\<rparr>,
      \<lparr>th = Some (ascii ''Pending''), td = Some (ascii ''18'')\<rparr>])
   = Inr [\<lparr>measure = ascii ''Positive'', counts = 12\<rparr>,
          \<lparr>measure = ascii ''Pending'', counts = 18\<rparr>]"
    by (simp add: get_cdc_data_def strip_label_def remove_char_def py_int_def py_strip_def
      transform_decimal_and_space_def is_space_def is_digit_def parse_number_def
      too_many_digits_def parse_unsigned_def ascii_def)
  from get_cdc_data_stripped_total [OF s(1) i,
      of "[\<lparr>th = Some (ascii ''Positive''), td = Some (ascii ''12'')\<rparr>]"
         "[\<lparr>th = Some (ascii ''Total'' @ [167]), td = Some (ascii ''30'')\<rparr>,
           \<lparr>th = Some (ascii ''Pending''), td = Some (ascii ''18'')\<rparr>]"]
    get_cdc_data_stripped_total [OF s(2) i,
      of "[\<lparr>th = Some (ascii ''Positive''), td = Some (ascii ''12'')\<rparr>]"
         "[\<lparr>th = Some (ascii ''Pending''), td = Some (ascii ''18'')\<rparr>]"]
  have "get_cdc_data ?itp (Some
     [\<lparr>th = Some (ascii ''Positive''), td = Some (ascii ''12'')\<rparr>,
      \<lparr>th = Some (ascii ''Total:''), td = Some (ascii ''30'')\<rparr>,
      \<lparr>th = Some (ascii ''Total'' @ [167]), td = Some (ascii ''30'')\<rparr>,
      \<lparr>th = Some (ascii ''Pending''), td = Some (ascii ''18'')\<rparr>])
   = Inr [\<lparr>measure = ascii ''Positive'', counts = 12\<rparr>,
          \<lparr>measure = ascii ''Pending'', counts = 18\<rparr>]"
    using r by simp
  with s show ?thesis by simp
qed

section \<open>The daily totals\<close>

lemma column_tolist_distinct:
  "distinct (map fst data) \<Longrightarrow> c \<in> set data \<Longrightarrow> column_tolist data (fst c) = Inr (snd c)"
proof -
  assume d: "distinct (map fst data)" and c: "c \<in> set data"
  have "filter (\<lambda>x. fst x = fst c) data = [c]"
    using d c
  proof (induction data)
    case Nil
    then show ?case by simp
  next
    case (Cons a data)
    show ?case
    proof (cases "a = c")
      case True
      with Cons.prems have "\<forall>x \<in> set data. fst x \<noteq> fst c" by (auto simp: image_iff)
      then have "filter (\<lambda>x. fst x = fst c) data = []" by (simp add: filter_empty_conv)
      with True show ?thesis by simp
    next
      case False
      with Cons.prems have "c \<in> set data" "fst a \<noteq> fst c" by force+
      with Cons show ?thesis by simp
    qed
  qed
  then show ?thesis by (simp add: column_tolist_def)
qed

lemma traverse_map: "(\<And>x. x \<in> set xs \<Longrightarrow> f x = Inr (g x)) \<Longrightarrow> traverse f xs = Inr (map g xs)"
  by (induction xs) simp_all

lemma traverse_np_sum:
  "list_all2 (\<lambda>c (name, xs). c = (name, Numbers xs)) cols days \<Longrightarrow>
   traverse np_sum (map snd cols) = Inr (map (\<lambda>(name, xs). sum_list xs) days)"
  by (induction cols days rule: list_all2_induct) (auto simp: np_sum_def)

text \<open>
  The signed value of a sum of 64-bit words is the sum of the signed values, wrapped into
  the range of int64; it is that sum when the sum is in the range.
\<close>

lemma sint_sum_list:
  "sint (sum_list xs :: int64) = signed_take_bit 63 (sum_list (map sint xs))"
proof (induction xs)
  case Nil
  then show ?case by simp
next
  case (Cons x xs)
  have "sint (x + sum_list xs) = signed_take_bit 63 (sint x + sint (sum_list xs))"
    by (simp add: sint_word_ariths)
  also have "\<dots> = signed_take_bit 63 (sint x + signed_take_bit 63 (sum_list (map sint xs)))"
    by (simp add: Cons.IH)
  also have "\<dots> = signed_take_bit 63
      (signed_take_bit 63 (sint x) + signed_take_bit 63 (signed_take_bit 63 (sum_list (map sint xs))))"
    by (simp only: signed_take_bit_add)
  also have "\<dots> = signed_take_bit 63
      (signed_take_bit 63 (sint x) + signed_take_bit 63 (sum_list (map sint xs)))"
    by simp
  also have "\<dots> = signed_take_bit 63 (sint x + sum_list (map sint xs))"
    by (rule signed_take_bit_add)
  finally show ?case by simp
qed

lemma sint_sum_list_exact:
  "in_int64 (sum_list (map sint xs)) \<Longrightarrow>
   sint (sum_list xs :: int64) = sum_list (map sint xs)"
  by (simp add: sint_sum_list in_int64_def signed_take_bit_int_eq_self)

text \<open>
  C6. For a time series frame whose column names are distinct and whose columns other than
  state and city hold int64 numbers (\<open>days\<close> lists them, in column order), the result is
  the list of the int64 sums of these columns, one per column, in column order. The signed
  value of each total is the sum of the signed values of the column wrapped into the range
  of int64, and it is that sum itself whenever the sum lies in the range.
\<close>

theorem get_country_cumulative_sums:
  "distinct (map fst data) \<Longrightarrow>
   list_all2 (\<lambda>c (name, xs). c = (name, Numbers xs))
     (filter (\<lambda>c. fst c \<noteq> ascii ''state'' \<and> fst c \<noteq> ascii ''city'') data) days \<Longrightarrow>
   get_country_cumulative data = Inr (map (\<lambda>(name, xs). sum_list xs) days) \<and>
   (\<forall>(name, xs) \<in> set days.
      sint (sum_list xs) = signed_take_bit 63 (sum_list (map sint xs)) \<and>
      (in_int64 (sum_list (map sint xs)) \<longrightarrow> sint (sum_list xs) = sum_list (map sint xs)))"
proof -
  let ?keep = "\<lambda>c::pystr \<times> series. fst c \<noteq> ascii ''state'' \<and> fst c \<noteq> ascii ''city''"
  assume d: "distinct (map fst data)"
    and n: "list_all2 (\<lambda>c (name, xs). c = (name, Numbers xs)) (filter ?keep data) days"
  have "filter (\<lambda>name. name \<noteq> ascii ''state'' \<and> name \<noteq> ascii ''city'') (map fst data) =
      map fst (filter ?keep data)"
    by (simp add: filter_map o_def)
  moreover have "traverse (column_tolist data) (map fst (filter ?keep data)) =
      Inr (map snd (filter ?keep data))"
  proof -
    have "traverse (\<lambda>c. column_tolist data (fst c)) (filter ?keep data) =
        Inr (map snd (filter ?keep data))"
      by (rule traverse_map) (simp add: column_tolist_distinct [OF d])
    moreover have "traverse f (map h xs) = traverse (\<lambda>x. f (h x)) xs" for f :: "pystr \<Rightarrow> error + series"
        and h :: "pystr \<times> series \<Rightarrow> pystr" and xs
      by (induction xs) (simp_all split: sum.splits)
    ultimately show ?thesis by simp
  qed
  ultimately have "get_country_cumulative data = Inr (map (\<lambda>(name, xs). sum_list xs) days)"
    using traverse_np_sum [OF n] by (simp add: get_country_cumulative_def)
  then show ?thesis
    by (auto simp: sint_sum_list_exact sint_sum_list [symmetric])
qed

text \<open>The frame of the specification: columns state, city, day1 = [3, 4], day2 = [5, 6].\<close>

theorem get_country_cumulative_sums_witness:
  "get_country_cumulative
     [(ascii ''state'', Text [ascii ''Ohio'', ascii ''Utah'']),
      (ascii ''city'', Text [ascii ''Akron'', ascii ''Provo'']),
      (ascii ''day1'', Numbers [3, 4]),
      (ascii ''day2'', Numbers [5, 6])]
   = Inr [7, 11] \<and>
   sint (7 :: int64) = 3 + 4 \<and> sint (11 :: int64) = 5 + 6"
proof -
  have d: "distinct (map fst
     [(ascii ''state'', Text [ascii ''Ohio'', ascii ''Utah'']),
      (ascii ''city'', Text [ascii ''Akron'', ascii ''Provo'']),
      (ascii ''day1'', Numbers [3, 4]),
      (ascii ''day2'', Numbers [5, 6])])"
    by (simp add: ascii_def)
  have n: "list_all2 (\<lambda>c (name, xs). c = (name, Numbers xs))
     (filter (\<lambda>c. fst c \<noteq> ascii ''state'' \<and> fst c \<noteq> ascii ''city'')
     [(ascii ''state'', Text [ascii ''Ohio'', ascii ''Utah'']),
      (ascii ''city'', Text [ascii ''Akron'', ascii ''Provo'']),
      (ascii ''day1'', Numbers [3, 4]),
      (ascii ''day2'', Numbers [5, 6])])
     [(ascii ''day1'', [3, 4]), (ascii ''day2'', [5, 6])]"
    by (simp add: ascii_def)
  from get_country_cumulative_sums [OF d n] show ?thesis by (simp add: in_int64_def)
qed

text \<open>
  The totals are not the sums of the integers when a sum leaves the range of int64: a
  column of two counts of \<open>2 ^ 62\<close> has the sum \<open>2 ^ 63\<close>, and its total is \<open>- (2 ^ 63)\<close>.
\<close>

theorem get_country_cumulative_overflow:
  "get_country_cumulative
     [(ascii ''state'', Text [ascii ''Ohio'', ascii ''Utah'']),
      (ascii ''city'', Text [ascii ''Akron'', ascii ''Provo'']),
      (ascii ''day1'', Numbers [4611686018427387904, 4611686018427387904])]
   = Inr [- 9223372036854775808] \<and>
   sint (- 9223372036854775808 :: int64) = - 9223372036854775808 \<and>
   sum_list (map sint [4611686018427387904, 4611686018427387904 :: int64]) = 9223372036854775808"
  by (simp add: get_country_cumulative_def column_tolist_def np_sum_def ascii_def)

section \<open>The time series chart\<close>

lemma traverse_math_log_zero:
  "x \<in> set freqs \<Longrightarrow> x \<le> 0 \<Longrightarrow> traverse math_log freqs = Inl ValueError"
proof (induction freqs)
  case Nil
  then show ?case by simp
next
  case (Cons a freqs)
  show ?case
  proof (cases "a \<le> 0")
    case True
    then show ?thesis by (simp add: math_log_def)
  next
    case False
    with Cons have "traverse math_log freqs = Inl ValueError" by auto
    moreover from False have "math_log a = Inr (ln (real_of_int a))" by (simp add: math_log_def)
    ultimately show ?thesis by simp
  qed
qed

text \<open>
  C8. For a sequence of counts that contains a zero, \<^verbatim>\<open>make_time_series_plot\<close> raises;
  and when the linear panel has been drawn, the exception is the \<^verbatim>\<open>ValueError\<close> of
  \<^verbatim>\<open>math.log\<close>, raised while the list of logarithms is computed: the linear panel is
  the only drawing made.
\<close>

theorem make_time_series_plot_zero:
  "0 \<in> set freqs \<Longrightarrow>
   (\<exists>fx e. make_time_series_plot plt freqs = (fx, Inl e)) \<and>
   (plt (RegularPanel freqs) = None \<longrightarrow>
      make_time_series_plot plt freqs = ([Draw (RegularPanel freqs)], Inl ValueError))"
proof -
  assume "0 \<in> set freqs"
  then have "traverse math_log freqs = Inl ValueError"
    by (rule traverse_math_log_zero) simp
  then show ?thesis
    by (simp add: make_time_series_plot_def split: option.splits)
qed

theorem make_time_series_plot_zero_witness:
  "make_time_series_plot (\<lambda>d. None) [3, 0, 5] = ([Draw (RegularPanel [3, 0, 5])], Inl ValueError)"
proof -
  have "(0::int) \<in> set [3, 0, 5]" by simp
  from make_time_series_plot_zero [OF this, of "\<lambda>d. None"] show ?thesis by simp
qed

section \<open>The publication charts leave the frames alone\<close>

lemma frame_index_cases_above:
  "frame_index (cases_above 20 data) data = rows_where (\<lambda>r. 20 < sint (cases r)) data"
  by (cases data)
    (simp_all add: frame_index_def cases_above_def rows_where_def frame_rows_def select_filter)

text \<open>
  C9. After \<^verbatim>\<open>make_plots\<close>, whether it returned or raised, every frame that existed
  before the call is what it was, the table of the caller among them. The rows with more
  than 20 cases are a new frame, and the state frame, when the call got that far, is a new
  frame computed from that copy.
\<close>

theorem make_plots_frame:
  "fst data < length (region_frames st) \<Longrightarrow>
   (case make_plots engine plt st data of
      (st', fx, res) \<Rightarrow>
        take (length (region_frames st)) (region_frames st') = region_frames st \<and>
        region_frames st' ! fst data = region_frames st ! fst data \<and>
        series_frames st' = series_frames st \<and>
        take (length (state_frames st)) (state_frames st') = state_frames st \<and>
        region_frames st' =
          region_frames st @
            [rows_where (\<lambda>r. 20 < sint (cases r)) (region_frames st ! fst data)] \<and>
        (state_frames st' = state_frames st \<or>
         (\<exists>state_frame.
            make_state_frame engine
                (rows_where (\<lambda>r. 20 < sint (cases r)) (region_frames st ! fst data)) =
              Inr state_frame \<and>
            state_frames st' = state_frames st @ [state_frame])))"
  by (auto simp: make_plots_def Let_def frame_index_cases_above nth_append
      split: option.splits sum.splits prod.splits)

text \<open>
  A table with one row above the limit and one below it; the state names have no special
  character, so the engine, which refuses every pattern here, is not asked.
\<close>

lemma make_plots_example:
  "make_plots engine (\<lambda>d. None)
     \<lparr>region_frames =
        [Rows
         [\<lparr>state = ascii ''Ohio'', cases = 25, deaths = 1, recoveries = 0, city = ascii ''Akron''\<rparr>,
          \<lparr>state = ascii ''Utah'', cases = 5, deaths = 2, recoveries = 1, city = ascii ''Provo''\<rparr>]],
      state_frames = [],
      series_frames = [[(ascii ''state'', Text [ascii ''Ohio'', ascii ''Utah'']),
                        (ascii ''3/1/20'', Numbers [3, 4])]]\<rparr>
     (0, 0)
   = (\<lparr>region_frames =
        [Rows
         [\<lparr>state = ascii ''Ohio'', cases = 25, deaths = 1, recoveries = 0, city = ascii ''Akron''\<rparr>,
          \<lparr>state = ascii ''Utah'', cases = 5, deaths = 2, recoveries = 1, city = ascii ''Provo''\<rparr>],
         Rows
         [\<lparr>state = ascii ''Ohio'', cases = 25, deaths = 1, recoveries = 0, city = ascii ''Akron''\<rparr>]],
      state_frames = [[\<lparr>state = ascii ''Ohio'', cases = 25, deaths = 1, recoveries = 0\<rparr>]],
      series_frames = [[(ascii ''state'', Text [ascii ''Ohio'', ascii ''Utah'']),
                        (ascii ''3/1/20'', Numbers [3, 4])]]\<rparr>,
      [Print (ascii ''Attempting to build plots!''), Log Info (ascii ''Making plots...''),
       Draw FigureSetup,
       Draw (StateChart [\<lparr>state = ascii ''Ohio'', cases = 25, deaths = 1, recoveries = 0\<rparr>]),
       Draw (RegularPanel [7]), Draw (LogPanel [ln 7]),
       Log Info (ascii ''Created plots!'')],
      Inr ())"
  by (simp add: make_plots_def Let_def cases_above_def frame_index_def frame_rows_def select_def
      make_state_frame_def get_data_for_def contains_mask_def re_compile_def simple_pattern_def
      regex_operators_def
      get_country_cumulative_def column_tolist_def np_sum_def make_time_series_plot_def
      math_log_def ascii_def)

theorem make_plots_frame_witness:
  "(case make_plots (\<lambda>pat. Inl ReError) (\<lambda>d. None)
     \<lparr>region_frames =
        [Rows
         [\<lparr>state = ascii ''Ohio'', cases = 25, deaths = 1, recoveries = 0, city = ascii ''Akron''\<rparr>,
          \<lparr>state = ascii ''Utah'', cases = 5, deaths = 2, recoveries = 1, city = ascii ''Provo''\<rparr>]],
      state_frames = [],
      series_frames = [[(ascii ''state'', Text [ascii ''Ohio'', ascii ''Utah'']),
                        (ascii ''3/1/20'', Numbers [3, 4])]]\<rparr>
     (0, 0) of
     (st', fx, res) \<Rightarrow>
       res = Inr () \<and>
       region_frames st' ! 0 =
         Rows
         [\<lparr>state = ascii ''Ohio'', cases = 25, deaths = 1, recoveries = 0, city = ascii ''Akron''\<rparr>,
          \<lparr>state = ascii ''Utah'', cases = 5, deaths = 2, recoveries = 1, city = ascii ''Provo''\<rparr>] \<and>
       region_frames st' ! 1 =
         Rows
         [\<lparr>state = ascii ''Ohio'', cases = 25, deaths = 1, recoveries = 0, city = ascii ''Akron''\<rparr>] \<and>
       length (region_frames st') = 2 \<and>
       series_frames st' =
         [[(ascii ''state'', Text [ascii ''Ohio'', ascii ''Utah'']),
           (ascii ''3/1/20'', Numbers [3, 4])]])"
proof -
  let ?engine = "(\<lambda>pat. Inl ReError) :: regex_engine"
  let ?st = "\<lparr>region_frames =
        [Rows
         [\<lparr>state = ascii ''Ohio'', cases = 25, deaths = 1, recoveries = 0, city = ascii ''Akron''\<rparr>,
          \<lparr>state = ascii ''Utah'', cases = 5, deaths = 2, recoveries = 1, city = ascii ''Provo''\<rparr>]],
      state_frames = [],
      series_frames = [[(ascii ''state'', Text [ascii ''Ohio'', ascii ''Utah'']),
                        (ascii ''3/1/20'', Numbers [3, 4])]]\<rparr>"
  have h: "fst (0::nat, 0::nat) < length (region_frames ?st)" by simp
  obtain st' fx res where m: "make_plots ?engine (\<lambda>d. None) ?st (0, 0) = (st', fx, res)"
    by (cases "make_plots ?engine (\<lambda>d. None) ?st (0, 0)")
  with make_plots_example [of ?engine] have r: "res = Inr ()" by simp
  from make_plots_frame [OF h, of ?engine "\<lambda>d. None"] m
  have "region_frames st' ! 0 = region_frames ?st ! 0"
    and "series_frames st' = series_frames ?st"
    and "region_frames st' =
          region_frames ?st @
            [rows_where (\<lambda>r. 20 < sint (cases r)) (region_frames ?st ! 0)]"
    by simp_all
  with r m show ?thesis by (simp add: rows_where_def)
qed

section \<open>The polling loop\<close>

lemma cycles_append: "cycles (xs @ ys) = cycles xs + cycles ys"
  by (simp add: cycles_def)

lemma cycles_banner: "cycles banner = 0"
  by (simp add: cycles_def banner_def)

lemma cycles_Nil: "cycles [] = 0"
  by (simp add: cycles_def)

lemma cycles_Cons: "cycles (x # xs) = (if x = FetchPlot then 1 else 0) + cycles xs"
  by (simp add: cycles_def)

lemma main_quiet:
  "(\<And>k. work (env k) = None \<and> \<not> interrupted (env k)) \<Longrightarrow>
   snd (main env depth k first_run) = Raised RecursionError \<and>
   cycles (fst (main env depth k first_run)) = depth"
proof (induction depth arbitrary: k first_run)
  case 0
  then show ?case by (simp add: cycles_Nil)
next
  case (Suc depth)
  obtain fx1 where r: "main env depth (Suc k) False = (fx1, Raised RecursionError)"
    and c: "cycles fx1 = depth"
    using Suc.IH [OF Suc.prems, of "Suc k" False]
    by (cases "main env depth (Suc k) False") auto
  have w: "work (env k) = None" "\<not> interrupted (env k)"
    using Suc.prems by simp_all
  show ?case
    using r c w
    by (simp add: Let_def cycles_append cycles_banner cycles_Cons cycles_Nil sleep_message_def)
qed

lemma main_step:
  "work (env k) = None \<Longrightarrow> \<not> interrupted (env k) \<Longrightarrow>
   snd (main env depth (Suc k) False) = Raised RecursionError \<Longrightarrow>
   fst (main env (Suc depth) k first_run) =
     [Log Info (ascii ''Starting tracker loop'')] @ (if first_run then banner else []) @
     [FetchPlot, sleep_message, Sleep 60] @ fst (main env depth (Suc k) False)"
  by (cases "main env depth (Suc k) False") (simp add: Let_def)

text \<open>
  An interrupt during the sleep of the \<open>j\<close>-th nested activation ends the run in the way
  the banner announces: every activation returns, after \<open>j + 1\<close> cycles.
\<close>

lemma main_interrupted:
  "(\<And>i. i < j \<Longrightarrow> work (env (k + i)) = None \<and> \<not> interrupted (env (k + i))) \<Longrightarrow>
   work (env (k + j)) = None \<Longrightarrow> interrupted (env (k + j)) \<Longrightarrow> j < depth \<Longrightarrow>
   snd (main env depth k first_run) = Returned \<and>
   cycles (fst (main env depth k first_run)) = Suc j"
proof (induction j arbitrary: k depth first_run)
  case 0
  then obtain d where "depth = Suc d" by (cases depth) auto
  with 0 show ?case
    by (simp add: Let_def cycles_append cycles_banner cycles_Cons cycles_Nil sleep_message_def)
next
  case (Suc j)
  then obtain d where d: "depth = Suc d" by (cases depth) auto
  have q: "work (env k) = None" "\<not> interrupted (env k)"
    using Suc.prems(1) [of 0] by simp_all
  have "snd (main env d (Suc k) False) = Returned \<and>
      cycles (fst (main env d (Suc k) False)) = Suc j"
  proof (rule Suc.IH)
    fix i assume "i < j"
    then show "work (env (Suc k + i)) = None \<and> \<not> interrupted (env (Suc k + i))"
      using Suc.prems(1) [of "Suc i"] by simp
  next
    show "work (env (Suc k + j)) = None" using Suc.prems(2) by simp
    show "interrupted (env (Suc k + j))" using Suc.prems(3) by simp
    show "j < d" using Suc.prems(4) d by simp
  qed
  then obtain fx1 where "main env d (Suc k) False = (fx1, Returned)" "cycles fx1 = Suc j"
    by (cases "main env d (Suc k) False") auto
  with q d show ?case
    by (simp add: Let_def cycles_append cycles_banner cycles_Cons cycles_Nil sleep_message_def)
qed

text \<open>
  C7, as amended. Let every download and chart succeed and no interrupt arrive. An
  activation of \<^verbatim>\<open>main\<close> runs its cycle, sleeps and calls \<^verbatim>\<open>main\<close> once, with
  \<^verbatim>\<open>first_run=False\<close>; that activation does the same before it returns, so the
  \<^verbatim>\<open>break\<close> is never reached. The run goes through one cycle for every nested
  activation the interpreter has room for and ends with \<^verbatim>\<open>RecursionError\<close>; it does
  not return.
\<close>

theorem main_polls:
  "(\<forall>k. work (env k) = None \<and> \<not> interrupted (env k)) \<Longrightarrow>
   snd (main env depth k first_run) = Raised RecursionError \<and>
   cycles (fst (main env depth k first_run)) = depth \<and>
   fst (main env (Suc depth) k first_run) =
     [Log Info (ascii ''Starting tracker loop'')] @ (if first_run then banner else []) @
     [FetchPlot, sleep_message, Sleep 60] @ fst (main env depth (Suc k) False)"
proof -
  assume q: "\<forall>k. work (env k) = None \<and> \<not> interrupted (env k)"
  then have "snd (main env depth k first_run) = Raised RecursionError \<and>
      cycles (fst (main env depth k first_run)) = depth"
    by (intro main_quiet) simp
  moreover have "snd (main env depth (Suc k) False) = Raised RecursionError"
    using q by (intro main_quiet [THEN conjunct1]) simp
  ultimately show ?thesis
    using q main_step [of env k depth first_run] by simp
qed

theorem main_polls_witness:
  "snd (main (\<lambda>k. \<lparr>work = None, interrupted = False\<rparr>) 3 0 True) = Raised RecursionError \<and>
   cycles (fst (main (\<lambda>k. \<lparr>work = None, interrupted = False\<rparr>) 3 0 True)) = 3"
  using main_polls [of "\<lambda>k. \<lparr>work = None, interrupted = False\<rparr>" 3 0 True] by simp

text \<open>
  With room for a thousand nested activations the run goes through a thousand cycles, not
  two, and it ends with an exception.
\<close>

theorem main_thousand_cycles:
  "cycles (fst (main (\<lambda>k. \<lparr>work = None, interrupted = False\<rparr>) 1000 0 True)) = 1000 \<and>
   snd (main (\<lambda>k. \<lparr>work = None, interrupted = False\<rparr>) 1000 0 True) = Raised RecursionError \<and>
   \<not> (cycles (fst (main (\<lambda>k. \<lparr>work = None, interrupted = False\<rparr>) 1000 0 True)) = 2 \<and>
      snd (main (\<lambda>k. \<lparr>work = None, interrupted = False\<rparr>) 1000 0 True) = Returned)"
  using main_quiet [of "\<lambda>k. \<lparr>work = None, interrupted = False\<rparr>" 1000 0 True] by simp

end
